theory Spec2Isabelle
  imports Complex_Main "HOL-Library.Multiset" "HOL-Library.List_Lexorder"
begin

section \<open>Python values\<close>

text \<open>
  A Python \<open>str\<close> is a sequence of Unicode code points; it is modelled as the list of
  its code points, so that \<open>"\xa0"\<close> is \<open>[160]\<close> and the per-mille sign is
  \<open>[8240]\<close>. \<open>u\<close> turns an ASCII literal into such a list.
\<close>

type_synonym pystr = "nat list"

definition u :: "string \<Rightarrow> pystr" where
  "u s = map of_char s"

text \<open>
  A Python \<open>float\<close> is modelled as an exact rational, extended by the two infinities
  and NaN (the "missing" value of the tables). The rounding of binary64 is not
  modelled.
\<close>

datatype pyfloat = NaN | NegInf | Fin rat | PosInf

text \<open>
  The values a spreadsheet cell or a callback argument can hold: \<open>None\<close>, a float, an
  integer (a \<open>bool\<close> is an \<open>int\<close> in Python), a string, or any other object, which
  the code only ever looks at through \<open>str(x)\<close>.
\<close>

datatype pyval = PNone | PFloat pyfloat | PInt int | PStr pystr | PObj pystr

subsection \<open>String methods used by the source\<close>







subsection \<open>The builtin \<open>float(str)\<close>\<close>










section \<open>The locale-aware number parser\<close>

definition isnan :: "pyfloat \<Rightarrow> bool" where
  "isnan v \<longleftrightarrow> v = NaN"



subsection \<open>Float operations of \<open>as_percent_0_100\<close>\<close>

fun fl_abs :: "pyfloat \<Rightarrow> pyfloat" where
  "fl_abs NaN = NaN"
| "fl_abs NegInf = PosInf"
| "fl_abs (Fin q) = Fin \<bar>q\<bar>"
| "fl_abs PosInf = PosInf"

text \<open>\<open>a <= b\<close>: every comparison with NaN is false.\<close>

fun fl_le :: "pyfloat \<Rightarrow> pyfloat \<Rightarrow> bool" where
  "fl_le NaN b = False"
| "fl_le a NaN = False"
| "fl_le NegInf b = True"
| "fl_le a PosInf = True"
| "fl_le (Fin a) (Fin b) = (a \<le> b)"
| "fl_le a b = False"




section \<open>The parser as the specification words it\<close>





section \<open>Tables\<close>

text \<open>
  A pandas \<open>DataFrame\<close> is kept column by column, as pandas does: the ordered list of
  its columns, each a name with its \<open>Series\<close> of cell values. \<open>df[c]\<close> raises
  \<open>KeyError\<close> for a column that is absent.
\<close>

datatype error = KeyError pystr | TypeError | ValueError

type_synonym series = "pyval list"

type_synonym dataframe = "(pystr \<times> series) list"

definition df_columns :: "dataframe \<Rightarrow> pystr list" where
  "df_columns df = map fst df"

definition df_getitem :: "dataframe \<Rightarrow> pystr \<Rightarrow> error + series" where
  "df_getitem df c = (case map_of df c of None \<Rightarrow> Inl (KeyError c) | Some vs \<Rightarrow> Inr vs)"

text \<open>\<open>df.empty\<close>: one of the two axes has length zero.\<close>

definition df_empty :: "dataframe \<Rightarrow> bool" where
  "df_empty df = (case df of [] \<Rightarrow> True | (c, vs) # _ \<Rightarrow> vs = [])"

text \<open>\<open>df[mask]\<close>: the rows whose mask entry is true, in their order.\<close>

definition select_rows :: "bool list \<Rightarrow> 'a list \<Rightarrow> 'a list" where
  "select_rows keep vs = map snd (filter fst (zip keep vs))"

definition df_filter :: "dataframe \<Rightarrow> bool list \<Rightarrow> dataframe" where
  "df_filter df keep = map (\<lambda>(c, vs). (c, select_rows keep vs)) df"

text \<open>\<open>df[c] = vs\<close>: replaces the column, or appends it as the last one.\<close>

definition df_setitem :: "dataframe \<Rightarrow> pystr \<Rightarrow> series \<Rightarrow> dataframe" where
  "df_setitem df c vs =
     (if c \<in> set (df_columns df) then map (\<lambda>(c', vs'). if c' = c then (c', vs) else (c', vs')) df
      else df @ [(c, vs)])"

text \<open>
  \<open>series.isin(values)\<close>, for the strings a multi-select dropdown delivers, and
  \<open>series == value\<close>.
\<close>

definition isin :: "series \<Rightarrow> pystr list \<Rightarrow> bool list" where
  "isin col vals = map (\<lambda>v. v \<in> set (map PStr vals)) col"

definition eq_mask :: "series \<Rightarrow> pystr \<Rightarrow> bool list" where
  "eq_mask col val = map (\<lambda>v. v = PStr val) col"

subsection \<open>Objects and references\<close>

text \<open>
  The three module-level tables are objects that every callback shares; \<open>.copy()\<close>
  and \<open>df[mask]\<close> create new objects, \<open>df[c] = vs\<close> changes the object it is
  applied to. The heap is the list of all table objects, a reference is a position
  in it; \<open>carb\<close>, \<open>prot\<close> and \<open>filme\<close> are the first three.
\<close>

type_synonym heap = "dataframe list"

type_synonym ref = nat

definition carb :: ref where
  "carb = 0"

definition prot :: ref where
  "prot = 1"

definition filme :: ref where
  "filme = 2"

definition h_copy :: "heap \<Rightarrow> ref \<Rightarrow> heap \<times> ref" where
  "h_copy h r = (h @ [h ! r], length h)"

definition h_filter :: "heap \<Rightarrow> ref \<Rightarrow> bool list \<Rightarrow> heap \<times> ref" where
  "h_filter h r keep = (h @ [df_filter (h ! r) keep], length h)"

definition h_setitem :: "heap \<Rightarrow> ref \<Rightarrow> pystr \<Rightarrow> series \<Rightarrow> heap" where
  "h_setitem h r c vs = h[r := df_setitem (h ! r) c vs]"

subsection \<open>Float operations of the chart code\<close>

fun fl_neg :: "pyfloat \<Rightarrow> pyfloat" where
  "fl_neg NaN = NaN"
| "fl_neg NegInf = PosInf"
| "fl_neg (Fin q) = Fin (- q)"
| "fl_neg PosInf = NegInf"

text \<open>\<open>a + b\<close>: opposite infinities add up to NaN.\<close>

fun fl_add :: "pyfloat \<Rightarrow> pyfloat \<Rightarrow> pyfloat" where
  "fl_add (Fin a) (Fin b) = Fin (a + b)"
| "fl_add NaN b = NaN"
| "fl_add a NaN = NaN"
| "fl_add PosInf b = (if b = NegInf then NaN else PosInf)"
| "fl_add NegInf b = (if b = PosInf then NaN else NegInf)"
| "fl_add (Fin a) b = b"

definition fl_sub :: "pyfloat \<Rightarrow> pyfloat \<Rightarrow> pyfloat" where
  "fl_sub a b = fl_add a (fl_neg b)"

definition fl_lt :: "pyfloat \<Rightarrow> pyfloat \<Rightarrow> bool" where
  "fl_lt a b \<longleftrightarrow> fl_le a b \<and> a \<noteq> b"

text \<open>The builtins \<open>min(a, b)\<close> and \<open>max(a, b)\<close>: the first argument wins a tie.\<close>

definition py_min :: "pyfloat \<Rightarrow> pyfloat \<Rightarrow> pyfloat" where
  "py_min a b = (if fl_lt b a then b else a)"

definition py_max :: "pyfloat \<Rightarrow> pyfloat \<Rightarrow> pyfloat" where
  "py_max a b = (if fl_lt a b then b else a)"

text \<open>A numeric cell as a float; arithmetic on a text or on \<open>None\<close> raises \<open>TypeError\<close>.\<close>

fun to_float :: "pyval \<Rightarrow> error + pyfloat" where
  "to_float (PFloat f) = Inr f"
| "to_float (PInt i) = Inr (Fin (of_int i))"
| "to_float v = Inl TypeError"

text \<open>Running a fallible function over a list, stopping at the first error.\<close>

fun map_e :: "('a \<Rightarrow> error + 'b) \<Rightarrow> 'a list \<Rightarrow> error + 'b list" where
  "map_e f [] = Inr []"
| "map_e f (x # xs) =
     (case f x of Inl e \<Rightarrow> Inl e
      | Inr y \<Rightarrow> (case map_e f xs of Inl e \<Rightarrow> Inl e | Inr ys \<Rightarrow> Inr (y # ys)))"

section \<open>Charts\<close>

text \<open>
  A chart is its title, its list of series (traces), the texts of its annotations and
  the range of the shared colour axis when one is set. Colours, fonts, legend position
  and axis titles are constants of the source and are left out. A bar or line series
  has a name, its x values and its y values; a heatmap has its matrix, its column
  labels and its row labels.
\<close>

datatype trace =
    Bar pyval series series
  | Scatter pyval series series
  | Heatmap "pyfloat list list" "pyval list" "pystr list"

record figure =
  title :: pystr
  traces :: "trace list"
  annotations :: "pystr list"
  coloraxis :: "(pyfloat \<times> pyfloat) option"

subsection \<open>Column names, series names and titles of the source\<close>

definition col_material :: pystr where
  "col_material = u ''Material''"

definition col_enzym :: pystr where
  "col_enzym = u ''Enzym''"

definition col_ts_us :: pystr where
  "col_ts_us = u ''TS Anteil '' @ [220] @ u ''S [%]''"

definition col_ts_sedi :: pystr where
  "col_ts_sedi = u ''TS Anteil Sedi [%]''"

definition col_loes :: pystr where
  "col_loes = u ''L'' @ [246] @ u ''slichkeit [%]''"

definition col_cglc :: pystr where
  "col_cglc = u ''cglc ['' @ [956] @ u ''M]''"

definition col_dh :: pystr where
  "col_dh = u ''DH [%]''"

definition col_ph_vor :: pystr where
  "col_ph_vor = u ''pH (vor)''"

definition col_ph_nach :: pystr where
  "col_ph_nach = u ''pH (nach)''"

definition col_abs_dph :: pystr where
  "col_abs_dph = u ''abs('' @ [916] @ u ''pH)''"

definition col_versuchsnr :: pystr where
  "col_versuchsnr = u ''Versuchsnr.''"

definition col_summe :: pystr where
  "col_summe = u ''Summe''"

definition col_homogenitaet :: pystr where
  "col_homogenitaet = u ''Homogenit'' @ [228] @ u ''t''"

definition col_stabilitaet :: pystr where
  "col_stabilitaet = u ''Stabilit'' @ [228] @ u ''t''"

definition col_adh_schale :: pystr where
  "col_adh_schale = u ''Adh'' @ [228] @ u ''sion Schale''"

definition col_adh_oberfl :: pystr where
  "col_adh_oberfl = u ''Adh'' @ [228] @ u ''sion Oberfl'' @ [228] @ u ''che''"

definition col_kohaesion :: pystr where
  "col_kohaesion = u ''Koh'' @ [228] @ u ''sion''"

definition col_geruch :: pystr where
  "col_geruch = u ''Geruch''"

definition name_ts_us :: pystr where
  "name_ts_us = u ''TS '' @ [220] @ u ''berstand [%]''"

definition name_ts_sedi :: pystr where
  "name_ts_sedi = u ''TS Sediment [%]''"

definition name_loes :: pystr where
  "name_loes = u ''Proteinl'' @ [246] @ u ''slichkeit [%]''"

definition name_glc :: pystr where
  "name_glc = u ''Reduzierende Zucker ['' @ [181] @ u ''M]''"

definition name_dh :: pystr where
  "name_dh = u ''Hydrolysegrad [%]''"

definition title_select_data :: pystr where
  "title_select_data = u ''Bitte Daten ausw'' @ [228] @ u ''hlen''"

definition title_carb :: pystr where
  "title_carb = u ''Carbohydratasen '' @ [8212] @ u '' TS-Verteilung & Zusatzdaten''"

definition title_prot_dist :: pystr where
  "title_prot_dist = u ''Proteasen '' @ [8212] @ u '' TS-Verteilung & Zusatzdaten''"

definition title_too_many :: pystr where
  "title_too_many = [1057, 1083, 1080, 1096, 1082, 1086, 1084] @ u '' '' @ [1084, 1085, 1086, 1075, 1086] @ u '' '' @ [1084, 1072, 1090, 1077, 1088, 1080, 1072, 1083, 1086, 1074] @ u '' '' @ [1076, 1083, 1103] @ u '' '' @ [1089, 1088, 1072, 1074, 1085, 1077, 1085, 1080, 1103]"

definition text_too_many :: pystr where
  "text_too_many = [1055, 1086, 1078, 1072, 1083, 1091, 1081, 1089, 1090, 1072] @ u '', '' @ [1074, 1099, 1073, 1077, 1088, 1080, 1090, 1077] @ u '' '' @ [1085, 1077] @ u '' '' @ [1073, 1086, 1083, 1077, 1077] @ u '' '' @ [1076, 1074, 1091, 1093] @ u '' '' @ [1084, 1072, 1090, 1077, 1088, 1080, 1072, 1083, 1086, 1074] @ u '' '' @ [1076, 1083, 1103] @ u '' '' @ [1090, 1077, 1087, 1083, 1086, 1074, 1086, 1081] @ u '' '' @ [1082, 1072, 1088, 1090, 1099] @ u ''.''"

definition title_select_mm :: pystr where
  "title_select_mm = u ''Proteasen '' @ [8212] @ u '' '' @ [1055, 1086, 1078, 1072, 1083, 1091, 1081, 1089, 1090, 1072] @ u '', '' @ [1074, 1099, 1073, 1077, 1088, 1080, 1090, 1077] @ u '' MM-'' @ [1092, 1088, 1072, 1082, 1094, 1080, 1080]"

definition title_compare :: pystr where
  "title_compare = u ''Proteasen '' @ [8212] @ u '' '' @ [1057, 1088, 1072, 1074, 1085, 1077, 1085, 1080, 1077] @ u '' MM-'' @ [1092, 1088, 1072, 1082, 1094, 1080, 1081]"

definition title_heat_one_prefix :: pystr where
  "title_heat_one_prefix = u ''Proteasen '' @ [8212] @ u '' Heatmap MM-'' @ [1092, 1088, 1072, 1082, 1094, 1080, 1081] @ u '' (''"

definition title_heat_all :: pystr where
  "title_heat_all = u ''Proteasen '' @ [8212] @ u '' Heatmap MM-'' @ [1092, 1088, 1072, 1082, 1094, 1080, 1081] @ u '' ('' @ [1089, 1088, 1077, 1076, 1085, 1077, 1077] @ u '' '' @ [1087, 1086] @ u '' '' @ [1074, 1089, 1077, 1084] @ u '')''"

definition title_filme :: pystr where
  "title_filme = u ''Filme '' @ [8212] @ u '' Gesamtbewertung''"

definition subplot_prefix :: pystr where
  "subplot_prefix = [1052, 1072, 1090, 1077, 1088, 1080, 1072, 1083] @ u '': ''"

definition opt_loes :: pystr where
  "opt_loes = u ''loes''"

definition opt_glc :: pystr where
  "opt_glc = u ''glc''"

definition opt_dh :: pystr where
  "opt_dh = u ''dh''"

definition opt_deltaph :: pystr where
  "opt_deltaph = u ''deltaph''"

definition opt_ph :: pystr where
  "opt_ph = u ''ph''"

section \<open>Pivot tables\<close>

text \<open>
  \<open>df.melt(id_vars="Enzym", value_vars=mm)\<close>: one record (fraction, enzyme, value)
  for every row and every column of \<open>mm\<close>, the columns one after the other.
\<close>

definition melt :: "dataframe \<Rightarrow> pystr list \<Rightarrow> error + (pystr \<times> pyval \<times> pyval) list" where
  "melt df value_vars =
     (case df_getitem df col_enzym of
        Inl e \<Rightarrow> Inl e
      | Inr enz \<Rightarrow>
          (case map_e (df_getitem df) value_vars of
             Inl e \<Rightarrow> Inl e
           | Inr cols \<Rightarrow>
               Inr (concat (map (\<lambda>(m, vs). map (\<lambda>(e, v). (m, e, v)) (zip enz vs))
                                (zip value_vars cols)))))"

definition is_null :: "pyval \<Rightarrow> bool" where
  "is_null v \<longleftrightarrow> v = PNone \<or> v = PFloat NaN"

definition fl_sum :: "pyfloat list \<Rightarrow> pyfloat" where
  "fl_sum vs = foldl fl_add (Fin 0) vs"

fun fl_div_nat :: "pyfloat \<Rightarrow> nat \<Rightarrow> pyfloat" where
  "fl_div_nat (Fin q) n = Fin (q / of_nat n)"
| "fl_div_nat v n = v"

text \<open>The mean of a group: missing values are skipped, a group without values is NaN.\<close>

definition mean :: "pyfloat list \<Rightarrow> pyfloat" where
  "mean vs =
     (let xs = filter (\<lambda>v. \<not> isnan v) vs
      in if xs = [] then NaN else fl_div_nat (fl_sum xs) (length xs))"

definition group_values :: "(pystr \<times> pyval \<times> pyfloat) list \<Rightarrow> pystr \<Rightarrow> pyval \<Rightarrow> pyfloat list" where
  "group_values recs m e = map (\<lambda>(m', e', v). v) (filter (\<lambda>(m', e', v). m' = m \<and> e' = e) recs)"

record pivot =
  pv_index :: "pystr list"
  pv_columns :: "pyval list"
  pv_values :: "pyfloat list list"

text \<open>The enzyme labels are texts; they are sorted by their code points.\<close>

definition label_key :: "pyval \<Rightarrow> pystr" where
  "label_key v = (case v of PStr s \<Rightarrow> s | PObj s \<Rightarrow> s | _ \<Rightarrow> [])"

text \<open>
  \<open>pivot_table(index="MM-Fraktion", columns="Enzym", values="Anteil [%]",
  aggfunc='mean')\<close>: the records are grouped by fraction and enzyme (a record whose
  enzyme is missing belongs to no group), every group is averaged, the groups whose
  mean is NaN are dropped, and what remains is laid out with the sorted fractions as
  rows and the sorted enzymes as columns; a cell without a group is NaN. A value that
  is not a number makes the mean raise \<open>TypeError\<close>.
\<close>

definition pivot_layout :: "(pystr \<times> pyval \<times> pyfloat) list \<Rightarrow> pivot" where
  "pivot_layout nrecs =
     (let kept = filter (\<lambda>(m, e). \<not> isnan (mean (group_values nrecs m e)))
                   (remdups (map (\<lambda>(m, e, v). (m, e)) nrecs));
          idx = sort (remdups (map fst kept));
          cols = sort_key label_key (remdups (map snd kept))
      in \<lparr>pv_index = idx, pv_columns = cols,
           pv_values = map (\<lambda>m. map (\<lambda>e. mean (group_values nrecs m e)) cols) idx\<rparr>)"

definition pivot_table :: "(pystr \<times> pyval \<times> pyval) list \<Rightarrow> error + pivot" where
  "pivot_table recs =
     (case map_e (\<lambda>(m, e, v). case to_float v of Inl err \<Rightarrow> Inl err | Inr f \<Rightarrow> Inr (m, e, f)) recs of
        Inl e \<Rightarrow> Inl e
      | Inr frecs \<Rightarrow> Inr (pivot_layout (filter (\<lambda>(m, e, v). \<not> is_null e) frecs)))"

definition pivot_of :: "dataframe \<Rightarrow> pystr list \<Rightarrow> error + pivot" where
  "pivot_of df mm = (case melt df mm of Inl e \<Rightarrow> Inl e | Inr recs \<Rightarrow> pivot_table recs)"

definition pivot_empty :: "pivot \<Rightarrow> bool" where
  "pivot_empty p \<longleftrightarrow> pv_index p = [] \<or> pv_columns p = []"

text \<open>
  \<open>pivot.min().min()\<close> and \<open>pivot.max().max()\<close>: the extremum of every column, NaN
  skipped, then the extremum of those.
\<close>

definition skipna_min :: "pyfloat list \<Rightarrow> pyfloat" where
  "skipna_min vs = (case filter (\<lambda>v. \<not> isnan v) vs of [] \<Rightarrow> NaN | x # xs \<Rightarrow> foldl py_min x xs)"

definition skipna_max :: "pyfloat list \<Rightarrow> pyfloat" where
  "skipna_max vs = (case filter (\<lambda>v. \<not> isnan v) vs of [] \<Rightarrow> NaN | x # xs \<Rightarrow> foldl py_max x xs)"

definition pv_column :: "pivot \<Rightarrow> nat \<Rightarrow> pyfloat list" where
  "pv_column p j = map (\<lambda>row. row ! j) (pv_values p)"

definition pv_min :: "pivot \<Rightarrow> pyfloat" where
  "pv_min p = skipna_min (map (\<lambda>j. skipna_min (pv_column p j)) [0..<length (pv_columns p)])"

definition pv_max :: "pivot \<Rightarrow> pyfloat" where
  "pv_max p = skipna_max (map (\<lambda>j. skipna_max (pv_column p j)) [0..<length (pv_columns p)])"

definition heatmap_trace :: "pivot \<Rightarrow> trace" where
  "heatmap_trace p = Heatmap (pv_values p) (pv_columns p) (pv_index p)"

section \<open>The chart callback\<close>

definition fig0 :: figure where
  "fig0 = \<lparr>title = title_select_data, traces = [], annotations = [], coloraxis = None\<rparr>"

text \<open>A callback argument is \<open>None\<close> or a list; \<open>truthy\<close> is its truth value.\<close>

definition truthy :: "'a list option \<Rightarrow> bool" where
  "truthy x = (case x of None \<Rightarrow> False | Some l \<Rightarrow> l \<noteq> [])"

definition or_empty :: "'a list option \<Rightarrow> 'a list" where
  "or_empty x = (case x of None \<Rightarrow> [] | Some l \<Rightarrow> l)"

text \<open>\<open>df_map.get(dataset, carb)\<close>\<close>

definition df_map_get :: "pystr \<Rightarrow> ref" where
  "df_map_get dataset =
     (if dataset = u ''carb'' then carb else if dataset = u ''prot'' then prot
      else if dataset = u ''filme'' then filme else carb)"

text \<open>Lines 162 and 163: \<open>if c in dff.columns and sel: dff = dff[dff[c].isin(sel)]\<close>\<close>

definition filter_by :: "heap \<Rightarrow> ref \<Rightarrow> pystr \<Rightarrow> pystr list option \<Rightarrow> heap \<times> ref" where
  "filter_by h dff c sel =
     (case map_of (h ! dff) c of
        None \<Rightarrow> (h, dff)
      | Some col \<Rightarrow> if truthy sel then h_filter h dff (isin col (or_empty sel)) else (h, dff))"

text \<open>\<open>(dff["pH (nach)"] - dff["pH (vor)"]).abs()\<close>\<close>

definition abs_delta_ph :: "dataframe \<Rightarrow> error + series" where
  "abs_delta_ph df =
     (case df_getitem df col_ph_nach of
        Inl e \<Rightarrow> Inl e
      | Inr nach \<Rightarrow>
          (case df_getitem df col_ph_vor of
             Inl e \<Rightarrow> Inl e
           | Inr vor \<Rightarrow>
               map_e (\<lambda>(a, b). case to_float a of Inl e \<Rightarrow> Inl e
                                | Inr x \<Rightarrow> (case to_float b of Inl e \<Rightarrow> Inl e
                                            | Inr y \<Rightarrow> Inr (PFloat (fl_abs (fl_sub x y)))))
                     (zip nach vor)))"

text \<open>One series \<open>kind(x=dff["Enzym"], y=dff[col], name=name)\<close>.\<close>

definition enzym_trace ::
  "(pyval \<Rightarrow> series \<Rightarrow> series \<Rightarrow> trace) \<Rightarrow> dataframe \<Rightarrow> pystr \<times> pystr \<Rightarrow> error + trace" where
  "enzym_trace kind df cn =
     (case df_getitem df col_enzym of
        Inl e \<Rightarrow> Inl e
      | Inr x \<Rightarrow> (case df_getitem df (fst cn) of Inl e \<Rightarrow> Inl e
                   | Inr y \<Rightarrow> Inr (kind (PStr (snd cn)) x y)))"

text \<open>
  The dictionaries \<open>traces_to_add\<close> of the two distribution views. Every option has
  the list of its (column, name) pairs: one pair, or the two of \<open>ph\<close>.
\<close>

definition traces_to_add_carb :: "(pystr \<times> (pystr \<times> pystr) list) list" where
  "traces_to_add_carb =
     [(opt_loes, [(col_loes, name_loes)]), (opt_glc, [(col_cglc, name_glc)]),
      (opt_deltaph, [(col_abs_dph, col_abs_dph)]),
      (opt_ph, [(col_ph_vor, col_ph_vor), (col_ph_nach, col_ph_nach)])]"

definition traces_to_add_prot :: "(pystr \<times> (pystr \<times> pystr) list) list" where
  "traces_to_add_prot =
     [(opt_loes, [(col_loes, name_loes)]), (opt_dh, [(col_dh, name_dh)]),
      (opt_deltaph, [(col_abs_dph, col_abs_dph)]),
      (opt_ph, [(col_ph_vor, col_ph_vor), (col_ph_nach, col_ph_nach)])]"

text \<open>
  The loop \<open>for opt in opts\<close> of lines 176 to 180 and 198 to 202: the options are
  visited in the order of the list the callback receives; an option that is not a key
  of the dictionary raises \<open>KeyError\<close>.
\<close>

fun extra_traces ::
  "dataframe \<Rightarrow> (pystr \<times> (pystr \<times> pystr) list) list \<Rightarrow> pystr list \<Rightarrow> error + trace list" where
  "extra_traces df tta [] = Inr []"
| "extra_traces df tta (opt # opts) =
     (case map_of tta opt of
        None \<Rightarrow> Inl (KeyError opt)
      | Some cns \<Rightarrow>
          (case map_e (enzym_trace Scatter df) cns of
             Inl e \<Rightarrow> Inl e
           | Inr ts \<Rightarrow> (case extra_traces df tta opts of Inl e \<Rightarrow> Inl e
                        | Inr rest \<Rightarrow> Inr (ts @ rest))))"

text \<open>
  Lines 167 to 185 (Carbohydratasen) and 189 to 207 (Proteasen, distribution), which
  differ in the dictionary and in the title only. The new column is written into the
  object \<open>dff\<close> refers to.
\<close>

definition distribution_view ::
  "heap \<Rightarrow> ref \<Rightarrow> (pystr \<times> (pystr \<times> pystr) list) list \<Rightarrow> pystr \<Rightarrow> pystr list
     \<Rightarrow> (error + figure) \<times> heap" where
  "distribution_view h dff tta ttl opts =
     (case abs_delta_ph (h ! dff) of
        Inl e \<Rightarrow> (Inl e, h)
      | Inr d \<Rightarrow>
          (let h = h_setitem h dff col_abs_dph d; df = h ! dff
           in case map_e (enzym_trace Bar df) [(col_ts_us, name_ts_us), (col_ts_sedi, name_ts_sedi)] of
                Inl e \<Rightarrow> (Inl e, h)
              | Inr bars \<Rightarrow>
                  (case extra_traces df tta opts of
                     Inl e \<Rightarrow> (Inl e, h)
                   | Inr lines \<Rightarrow>
                       (Inr \<lparr>title = ttl, traces = bars @ lines, annotations = [],
                             coloraxis = None\<rparr>, h))))"

definition mm_present_of :: "dataframe \<Rightarrow> pystr list option \<Rightarrow> pystr list" where
  "mm_present_of df mm_selected = filter (\<lambda>m. m \<in> set (df_columns df)) (or_empty mm_selected)"

text \<open>Lines 218 to 243: two materials, one heat map each, one colour axis.\<close>

definition heatmap_pair :: "dataframe \<Rightarrow> pystr \<Rightarrow> pystr \<Rightarrow> pystr list option \<Rightarrow> error + figure" where
  "heatmap_pair df mat1 mat2 mm_selected =
     (let subplot_titles = [subplot_prefix @ mat1, subplot_prefix @ mat2];
          mm_present = mm_present_of df mm_selected
      in if mm_present = []
         then Inr \<lparr>title = title_select_mm, traces = [], annotations = subplot_titles,
                   coloraxis = None\<rparr>
         else
           (case df_getitem df col_material of
              Inl e \<Rightarrow> Inl e
            | Inr mcol \<Rightarrow>
                (case pivot_of (df_filter df (eq_mask mcol mat1)) mm_present of
                   Inl e \<Rightarrow> Inl e
                 | Inr pivot1 \<Rightarrow>
                     (case pivot_of (df_filter df (eq_mask mcol mat2)) mm_present of
                        Inl e \<Rightarrow> Inl e
                      | Inr pivot2 \<Rightarrow>
                          (let both = (\<not> pivot_empty pivot1 \<and> \<not> pivot_empty pivot2);
                               z_min = (if both then py_min (pv_min pivot1) (pv_min pivot2) else Fin 0);
                               z_max = (if both then py_max (pv_max pivot1) (pv_max pivot2) else Fin 100)
                           in Inr \<lparr>title = title_compare,
                                   traces = [heatmap_trace pivot1, heatmap_trace pivot2],
                                   annotations = subplot_titles,
                                   coloraxis = Some (z_min, z_max)\<rparr>)))))"

text \<open>Lines 245 to 257: no material or one material, one heat map.\<close>

definition heatmap_single :: "dataframe \<Rightarrow> pystr list \<Rightarrow> pystr list option \<Rightarrow> error + figure" where
  "heatmap_single df mats mm_selected =
     (let mm_present = mm_present_of df mm_selected
      in if mm_present = [] then Inr (fig0\<lparr>title := title_select_mm\<rparr>)
         else
           (let title_text = (case mats of [m] \<Rightarrow> title_heat_one_prefix @ m @ u '')''
                              | _ \<Rightarrow> title_heat_all)
            in case pivot_of df mm_present of
                 Inl e \<Rightarrow> Inl e
               | Inr pivot \<Rightarrow> Inr \<lparr>title = title_text, traces = [heatmap_trace pivot],
                                    annotations = [], coloraxis = None\<rparr>))"

text \<open>
  Lines 260 to 265: \<open>px.bar\<close> refuses a column name that the table does not have
  with \<open>ValueError\<close>, and draws one bar series for every material.
\<close>

definition filme_view :: "dataframe \<Rightarrow> error + figure" where
  "filme_view df =
     (if list_all (\<lambda>c. c \<in> set (df_columns df))
           [col_versuchsnr, col_summe, col_material, col_homogenitaet, col_stabilitaet,
            col_adh_schale, col_adh_oberfl, col_kohaesion, col_geruch]
      then
        (case (df_getitem df col_versuchsnr, df_getitem df col_summe, df_getitem df col_material) of
           (Inr x, Inr y, Inr mcol) \<Rightarrow>
             Inr \<lparr>title = title_filme,
                   traces = map (\<lambda>m. Bar m (select_rows (map (\<lambda>v. v = m) mcol) x)
                                             (select_rows (map (\<lambda>v. v = m) mcol) y))
                                (remdups mcol),
                   annotations = [], coloraxis = None\<rparr>
         | _ \<Rightarrow> Inl ValueError)
      else Inl ValueError)"

text \<open>
  Lines 160 to 163: the table of the data set is copied, and the copy is filtered by
  material and by enzyme. The result is the heap with the new objects and the
  reference \<open>dff\<close>.
\<close>

definition filter_rows ::
  "heap \<Rightarrow> pystr \<Rightarrow> pystr list option \<Rightarrow> pystr list option \<Rightarrow> heap \<times> ref" where
  "filter_rows h0 dataset mats enz =
     (let (h1, dff1) = h_copy h0 (df_map_get dataset);
          (h2, dff2) = filter_by h1 dff1 col_material mats
      in filter_by h2 dff2 col_enzym enz)"

text \<open>
  \<open>update_plot\<close>, lines 157 to 267. The heap is passed in and returned, so that what
  the callback does to the shared tables is part of its result.
\<close>

definition update_plot ::
  "heap \<Rightarrow> pystr \<Rightarrow> pystr list option \<Rightarrow> pystr list option \<Rightarrow> pystr list option
     \<Rightarrow> pystr list option \<Rightarrow> pystr \<Rightarrow> pystr list option \<Rightarrow> (error + figure) \<times> heap" where
  "update_plot h0 dataset mats enz carb_opts prot_opts prot_view mm_selected =
     (let (h, dff) = filter_rows h0 dataset mats enz
      in if df_empty (h ! dff) then (Inr fig0, h)
         else if dataset = u ''carb''
         then distribution_view h dff traces_to_add_carb title_carb (or_empty carb_opts)
         else if dataset = u ''prot'' then
           (if prot_view = u ''distribution''
            then distribution_view h dff traces_to_add_prot title_prot_dist (or_empty prot_opts)
            else if prot_view = u ''heatmap'' then
              (let num_mats = (if truthy mats then length (or_empty mats) else 0)
               in if num_mats > 2
                  then (Inr (fig0\<lparr>title := title_too_many, annotations := [text_too_many]\<rparr>), h)
                  else if num_mats = 2
                  then (heatmap_pair (h ! dff) (or_empty mats ! 0) (or_empty mats ! 1) mm_selected, h)
                  else (heatmap_single (h ! dff) (or_empty mats) mm_selected, h))
            else (Inr fig0, h))
         else if dataset = u ''filme'' then (filme_view (h ! dff), h)
         else (Inr fig0, h))"

text \<open>The table a callback works on once the two filters are applied.\<close>

definition filtered :: "heap \<Rightarrow> pystr \<Rightarrow> pystr list option \<Rightarrow> pystr list option \<Rightarrow> dataframe" where
  "filtered h0 dataset mats enz = (let (h, dff) = filter_rows h0 dataset mats enz in h ! dff)"

section \<open>Reading a chart\<close>

text \<open>The series of a result (none for an error) and the name of a series.\<close>

definition chart_traces :: "error + figure \<Rightarrow> trace list" where
  "chart_traces r = (case r of Inl e \<Rightarrow> [] | Inr fig \<Rightarrow> traces fig)"



section \<open>The heat map cells as the specification words them\<close>

text \<open>
  The specification describes a cell of a heat map directly: the mean of the values
  of the fraction column \<open>m\<close> over the rows of the table whose enzyme is \<open>e\<close>,
  missing values not counted.
\<close>

definition col_or_empty :: "dataframe \<Rightarrow> pystr \<Rightarrow> series" where
  "col_or_empty df c = (case map_of df c of None \<Rightarrow> [] | Some vs \<Rightarrow> vs)"

definition float_of :: "pyval \<Rightarrow> pyfloat" where
  "float_of v = (case to_float v of Inl e \<Rightarrow> NaN | Inr f \<Rightarrow> f)"

definition cell_mean :: "dataframe \<Rightarrow> pystr \<Rightarrow> pyval \<Rightarrow> pyfloat" where
  "cell_mean df m e =
     mean (map (\<lambda>(e', v). float_of v)
               (filter (\<lambda>(e', v). e' = e) (zip (col_or_empty df col_enzym) (col_or_empty df m))))"

text \<open>All cells of a pivot table, and the shape every computed pivot table has.\<close>

definition pivot_cells :: "pivot \<Rightarrow> pyfloat set" where
  "pivot_cells p = set (concat (pv_values p))"

definition pivot_wf :: "pivot \<Rightarrow> bool" where
  "pivot_wf p \<longleftrightarrow>
     list_all (\<lambda>row. length row = length (pv_columns p)) (pv_values p)
     \<and> list_all (\<lambda>j. list_ex (\<lambda>v. \<not> isnan v) (pv_column p j)) [0..<length (pv_columns p)]"

section \<open>Example tables\<close>

text \<open>Small tables with the columns of the three sheets, used to run the callback.\<close>

definition ex_carb :: dataframe where
  "ex_carb =
     [(col_material, [PStr (u ''X''), PStr (u ''X''), PStr (u ''Y'')]),
      (col_enzym, [PStr (u ''A''), PStr (u ''B''), PStr (u ''A'')]),
      (col_ts_us, [PFloat (Fin 40), PFloat (Fin 50), PFloat (Fin 60)]),
      (col_ts_sedi, [PFloat (Fin 60), PFloat (Fin 50), PFloat (Fin 40)]),
      (col_loes, [PFloat (Fin 10), PFloat NaN, PFloat (Fin 30)]),
      (col_cglc, [PFloat (Fin 1), PFloat (Fin 2), PFloat (Fin 3)]),
      (col_ph_vor, [PFloat (Fin 7), PFloat (Fin 7), PFloat (Fin 6)]),
      (col_ph_nach, [PFloat (Fin 6), PFloat (Fin 8), PFloat NaN])]"

definition ex_prot :: dataframe where
  "ex_prot =
     [(col_material, [PStr (u ''X''), PStr (u ''X''), PStr (u ''Y'')]),
      (col_enzym, [PStr (u ''B''), PStr (u ''A''), PStr (u ''A'')]),
      (col_ts_us, [PFloat (Fin 40), PFloat (Fin 50), PFloat (Fin 60)]),
      (col_ts_sedi, [PFloat (Fin 60), PFloat (Fin 50), PFloat (Fin 40)]),
      (col_loes, [PFloat (Fin 10), PFloat NaN, PFloat (Fin 30)]),
      (col_dh, [PFloat (Fin 1), PFloat (Fin 2), PFloat (Fin 3)]),
      (col_ph_vor, [PFloat (Fin 7), PFloat (Fin 7), PFloat (Fin 6)]),
      (col_ph_nach, [PFloat (Fin 6), PFloat (Fin 8), PFloat NaN]),
      (u ''MM1'', [PFloat (Fin 5), PFloat (Fin 15), PFloat (Fin 25)]),
      (u ''MM2'', [PFloat NaN, PFloat (Fin 35), PFloat (Fin 45)])]"

definition ex_filme :: dataframe where
  "ex_filme =
     [(col_material, [PStr (u ''X'')]), (col_versuchsnr, [PInt 1]),
      (col_summe, [PFloat (Fin 9)])]"

definition ex_heap :: heap where
  "ex_heap = [ex_carb, ex_prot, ex_filme]"

text \<open>The same sheets, the first one without its solubility column.\<close>

definition ex_carb_no_loes :: dataframe where
  "ex_carb_no_loes =
     [(col_material, [PStr (u ''X''), PStr (u ''Y'')]),
      (col_enzym, [PStr (u ''A''), PStr (u ''B'')]),
      (col_ts_us, [PFloat (Fin 40), PFloat (Fin 50)]),
      (col_ts_sedi, [PFloat (Fin 60), PFloat (Fin 50)]),
      (col_cglc, [PFloat (Fin 1), PFloat (Fin 2)]),
      (col_ph_vor, [PFloat (Fin 7), PFloat (Fin 7)]),
      (col_ph_nach, [PFloat (Fin 6), PFloat (Fin 8)])]"

definition ex_heap_no_loes :: heap where
  "ex_heap_no_loes = [ex_carb_no_loes, ex_prot, ex_filme]"

text \<open>The pivot of the material \<open>X\<close> of \<open>ex_prot\<close> over both MM fractions.\<close>

definition ex_pivot_x :: pivot where
  "ex_pivot_x =
     \<lparr>pv_index = [u ''MM1'', u ''MM2''], pv_columns = [PStr (u ''A''), PStr (u ''B'')],
      pv_values = [[Fin 15, Fin 5], [Fin 35, NaN]]\<rparr>"



section \<open>Properties of the number parser\<close>

























section \<open>Properties of the chart callback\<close>

lemmas names = col_material_def col_enzym_def col_ts_us_def col_ts_sedi_def col_loes_def
  col_cglc_def col_dh_def col_ph_vor_def col_ph_nach_def col_abs_dph_def col_versuchsnr_def
  col_summe_def col_homogenitaet_def col_stabilitaet_def col_adh_schale_def col_adh_oberfl_def
  col_kohaesion_def col_geruch_def name_ts_us_def name_ts_sedi_def name_loes_def name_glc_def
  name_dh_def opt_loes_def opt_glc_def opt_dh_def opt_deltaph_def opt_ph_def

lemmas run = update_plot_def filtered_def filter_rows_def h_copy_def h_filter_def h_setitem_def filter_by_def
  df_map_get_def carb_def prot_def filme_def df_empty_def df_filter_def select_rows_def
  df_getitem_def df_setitem_def df_columns_def isin_def eq_mask_def truthy_def or_empty_def
  distribution_view_def abs_delta_ph_def enzym_trace_def traces_to_add_carb_def
  traces_to_add_prot_def fl_sub_def ex_heap_def ex_carb_def ex_prot_def ex_filme_def
  ex_carb_no_loes_def ex_heap_no_loes_def u_def names

text \<open>
  Claim C6. Whenever the table that remains after the material and enzyme filters is
  empty, the callback returns the placeholder chart with the title "Bitte Daten
  auswaehlen" and without any series, for every data set, view and option selection;
  no error is raised.
\<close>

theorem empty_filtered_placeholder:
  assumes "df_empty (filtered h dataset mats enz)"
  shows "fst (update_plot h dataset mats enz carb_opts prot_opts prot_view mm_selected) = Inr fig0
         \<and> title fig0 = title_select_data \<and> traces fig0 = []"
  using assms
  by (cases "filter_rows h dataset mats enz") (simp add: update_plot_def filtered_def fig0_def)

theorem empty_filtered_placeholder_witness:
  "df_empty (filtered ex_heap (u ''prot'') (Some [u ''Z'']) None)
   \<and> fst (update_plot ex_heap (u ''prot'') (Some [u ''Z'']) None None (Some [opt_loes])
            (u ''heatmap'') (Some [u ''MM1''])) = Inr fig0"
proof -
  have e: "df_empty (filtered ex_heap (u ''prot'') (Some [u ''Z'']) None)"
    by (simp add: run)
  from empty_filtered_placeholder [OF e] e show ?thesis by simp
qed

text \<open>
  Claim C8, as amended. For a data set name other than \<open>carb\<close>, \<open>prot\<close> and
  \<open>filme\<close> the callback filters the table of the fallback data set \<open>carb\<close>, and
  then returns the placeholder chart "Bitte Daten auswaehlen": none of the three chart
  branches is taken, so the chart of the fallback data set is not drawn.
\<close>

theorem unknown_dataset_placeholder:
  assumes "dataset \<noteq> u ''carb''" and "dataset \<noteq> u ''prot''" and "dataset \<noteq> u ''filme''"
  shows "fst (update_plot h dataset mats enz carb_opts prot_opts prot_view mm_selected) = Inr fig0
         \<and> filtered h dataset mats enz = filtered h (u ''carb'') mats enz"
  using assms
  by (cases "filter_rows h dataset mats enz")
     (simp add: update_plot_def filtered_def filter_rows_def df_map_get_def)

text \<open>
  The claim as stated fails: on the example tables the unknown name \<open>xyz\<close> gives the
  placeholder, the name \<open>carb\<close> a chart with two series.
\<close>

theorem unknown_dataset_counterexample:
  "u ''xyz'' \<notin> {u ''carb'', u ''prot'', u ''filme''}
   \<and> fst (update_plot ex_heap (u ''xyz'') None None None None (u ''distribution'') None)
       \<noteq> fst (update_plot ex_heap (u ''carb'') None None None None (u ''distribution'') None)
   \<and> length (chart_traces
        (fst (update_plot ex_heap (u ''carb'') None None None None (u ''distribution'') None))) = 2
   \<and> fst (update_plot ex_heap (u ''xyz'') None None None None (u ''distribution'') None) = Inr fig0"
  by (simp add: run chart_traces_def fig0_def title_select_data_def title_carb_def)

theorem unknown_dataset_placeholder_witness:
  "fst (update_plot ex_heap (u ''xyz'') None None (Some [opt_loes]) None (u ''heatmap'') None) = Inr fig0"
proof -
  have "u ''xyz'' \<noteq> u ''carb''" "u ''xyz'' \<noteq> u ''prot''" "u ''xyz'' \<noteq> u ''filme''"
    by (simp_all add: u_def)
  from unknown_dataset_placeholder [OF this] show ?thesis by simp
qed

lemma filter_by_extends:
  assumes "filter_by h d c sel = (h', d')"
  shows "(\<exists>ys. h' = h @ ys) \<and> (d' = d \<or> d' = length h)"
  using assms
  by (auto simp: filter_by_def h_filter_def split: option.splits if_splits)

lemma filter_rows_extends:
  assumes "filter_rows h dataset mats enz = (h', d)"
  shows "(\<exists>ys. h' = h @ ys) \<and> length h \<le> d"
proof -
  obtain h2 d2 where 2: "filter_by (h @ [h ! df_map_get dataset]) (length h) col_material mats = (h2, d2)"
    by (cases "filter_by (h @ [h ! df_map_get dataset]) (length h) col_material mats")
  with assms have 3: "filter_by h2 d2 col_enzym enz = (h', d)"
    by (simp add: filter_rows_def h_copy_def)
  from filter_by_extends [OF 2] obtain ys where
    a: "h2 = (h @ [h ! df_map_get dataset]) @ ys" and b: "d2 = length h \<or> d2 = Suc (length h)"
    by auto
  from filter_by_extends [OF 3] obtain zs where
    c: "h' = h2 @ zs" and d: "d = d2 \<or> d = length h2"
    by auto
  from a c have "h' = h @ ([h ! df_map_get dataset] @ ys @ zs)" by simp
  moreover from a b d have "length h \<le> d" by auto
  ultimately show ?thesis by blast
qed

lemma distribution_view_keeps:
  assumes "distribution_view h d tta ttl opts = (r, h')" and "n \<le> d"
  shows "take n h' = take n h"
  using assms
  by (auto simp: distribution_view_def h_setitem_def Let_def split: sum.splits)

lemma update_plot_heap:
  assumes "filter_rows h dataset mats enz = (h1, d)"
  shows "take (length h) (snd (update_plot h dataset mats enz carb_opts prot_opts prot_view mm_selected))
           = take (length h) h1"
proof -
  from filter_rows_extends [OF assms] have le: "length h \<le> d" by simp
  have dv: "take (length h) (snd (distribution_view h1 d tta ttl opts)) = take (length h) h1"
    for tta ttl opts
    using distribution_view_keeps [OF _ le, of h1 tta ttl opts] by (metis prod.collapse)
  show ?thesis
    using assms by (simp add: update_plot_def Let_def dv)
qed

text \<open>
  Claim C7. A render leaves every table object that existed before it as it was: it
  only adds objects (the copy and its filtered subsets) to the heap, and the column
  \<open>abs(Delta pH)\<close> is written into one of those. So the three tables \<open>carb\<close>,
  \<open>prot\<close> and \<open>filme\<close> that a later render reads are the ones loaded at the start.
\<close>

theorem tables_unchanged:
  assumes "3 \<le> length h"
  shows "take (length h) (snd (update_plot h dataset mats enz carb_opts prot_opts prot_view mm_selected)) = h
    \<and> snd (update_plot h dataset mats enz carb_opts prot_opts prot_view mm_selected) ! carb = h ! carb
    \<and> snd (update_plot h dataset mats enz carb_opts prot_opts prot_view mm_selected) ! prot = h ! prot
    \<and> snd (update_plot h dataset mats enz carb_opts prot_opts prot_view mm_selected) ! filme = h ! filme"
proof -
  let ?h' = "snd (update_plot h dataset mats enz carb_opts prot_opts prot_view mm_selected)"
  obtain h1 d where f: "filter_rows h dataset mats enz = (h1, d)"
    by (cases "filter_rows h dataset mats enz")
  from filter_rows_extends [OF f] obtain ys where "h1 = h @ ys" by auto
  with update_plot_heap [OF f] have t: "take (length h) ?h' = h" by simp
  have n: "?h' ! r = h ! r" if "r < length h" for r
    using t that by (metis nth_take)
  from assms have "0 < length h" "1 < length h" "2 < length h" by linarith+
  then have "?h' ! 0 = h ! 0" "?h' ! 1 = h ! 1" "?h' ! 2 = h ! 2" by (simp_all only: n)
  with t show ?thesis by (simp add: carb_def prot_def filme_def)
qed

theorem tables_unchanged_witness:
  "3 \<le> length ex_heap
   \<and> take 3 (snd (update_plot ex_heap (u ''carb'') (Some [u ''X'']) None (Some [opt_deltaph]) None
                  (u ''distribution'') None)) = ex_heap
   \<and> length (snd (update_plot ex_heap (u ''carb'') (Some [u ''X'']) None (Some [opt_deltaph]) None
                  (u ''distribution'') None)) = 5"
proof -
  have l: "3 \<le> length ex_heap" "length ex_heap = 3" by (simp_all add: ex_heap_def)
  have "length (snd (update_plot ex_heap (u ''carb'') (Some [u ''X'']) None (Some [opt_deltaph]) None
                  (u ''distribution'') None)) = 5"
    by (simp add: run)
  with tables_unchanged [OF l(1), of "u ''carb''" "Some [u ''X'']" None "Some [opt_deltaph]" None
      "u ''distribution''" None] l
  show ?thesis by simp
qed





















lemma view_names:
  "u ''prot'' \<noteq> u ''carb''" "u ''heatmap'' \<noteq> u ''distribution''"
  by (simp_all add: u_def)




lemmas run_pivot = pivot_of_def melt_def pivot_table_def pivot_layout_def mean_def group_values_def is_null_def
  isnan_def fl_sum_def label_key_def pivot_empty_def mm_present_of_def

text \<open>
  Claim C10. In the heat map view of Proteasen with two materials, when one of the
  two pivot tables is empty (for instance because a selected material has no rows
  left), the range of the shared colour axis is exactly 0 to 100 and not taken from
  the data.
\<close>

theorem empty_pivot_default_range:
  assumes "mats = Some [mat1, mat2]"
    and "\<not> df_empty (filtered h (u ''prot'') mats enz)"
    and "mm_present_of (filtered h (u ''prot'') mats enz) mm_selected \<noteq> []"
    and "df_getitem (filtered h (u ''prot'') mats enz) col_material = Inr mcol"
    and "pivot_of (df_filter (filtered h (u ''prot'') mats enz) (eq_mask mcol mat1))
           (mm_present_of (filtered h (u ''prot'') mats enz) mm_selected) = Inr pivot1"
    and "pivot_of (df_filter (filtered h (u ''prot'') mats enz) (eq_mask mcol mat2))
           (mm_present_of (filtered h (u ''prot'') mats enz) mm_selected) = Inr pivot2"
    and "pivot_empty pivot1 \<or> pivot_empty pivot2"
  shows "\<exists>fig. fst (update_plot h (u ''prot'') mats enz carb_opts prot_opts (u ''heatmap'') mm_selected)
              = Inr fig
          \<and> coloraxis fig = Some (Fin 0, Fin 100)"
proof -
  obtain h1 d where f: "filter_rows h (u ''prot'') mats enz = (h1, d)"
    by (cases "filter_rows h (u ''prot'') mats enz")
  then have fd: "filtered h (u ''prot'') mats enz = h1 ! d" by (simp add: filtered_def)
  have n: "(if truthy mats then length (or_empty mats) else 0) = 2"
    "or_empty mats ! 0 = mat1" "or_empty mats ! 1 = mat2"
    using assms(1) by (simp_all add: truthy_def or_empty_def)
  have "heatmap_pair (h1 ! d) mat1 mat2 mm_selected
      = Inr \<lparr>title = title_compare, traces = [heatmap_trace pivot1, heatmap_trace pivot2],
              annotations = [subplot_prefix @ mat1, subplot_prefix @ mat2],
              coloraxis = Some (Fin 0, Fin 100)\<rparr>"
    using assms(3-7) unfolding fd by (auto simp add: heatmap_pair_def Let_def)
  with f assms(2) n show ?thesis
    unfolding fd by (simp add: update_plot_def view_names)
qed


lemma ex_p1:
  "pivot_of (df_filter (filtered ex_heap (u ''prot'') (Some [u ''X'', u ''Z'']) None)
               (eq_mask [PStr (u ''X''), PStr (u ''X'')] (u ''X'')))
           (mm_present_of (filtered ex_heap (u ''prot'') (Some [u ''X'', u ''Z'']) None)
              (Some [u ''MM1'', u ''MM2''])) = Inr ex_pivot_x"
  by (simp add: run run_pivot ex_pivot_x_def)

lemma ex_p2:
  "pivot_of (df_filter (filtered ex_heap (u ''prot'') (Some [u ''X'', u ''Z'']) None)
               (eq_mask [PStr (u ''X''), PStr (u ''X'')] (u ''Z'')))
           (mm_present_of (filtered ex_heap (u ''prot'') (Some [u ''X'', u ''Z'']) None)
              (Some [u ''MM1'', u ''MM2''])) = Inr \<lparr>pv_index = [], pv_columns = [], pv_values = []\<rparr>"
  by (simp add: run run_pivot)

theorem empty_pivot_default_range_witness:
  "pivot_empty \<lparr>pv_index = [], pv_columns = [], pv_values = []\<rparr>
   \<and> (\<exists>fig. fst (update_plot ex_heap (u ''prot'') (Some [u ''X'', u ''Z'']) None None None
                  (u ''heatmap'') (Some [u ''MM1'', u ''MM2''])) = Inr fig
          \<and> coloraxis fig = Some (Fin 0, Fin 100))"
proof -
  let ?F = "filtered ex_heap (u ''prot'') (Some [u ''X'', u ''Z'']) None"
  have 1: "Some [u ''X'', u ''Z''] = Some [u ''X'', u ''Z'']" by (rule refl)
  have 2: "\<not> df_empty ?F" by (simp add: run)
  have 3: "mm_present_of ?F (Some [u ''MM1'', u ''MM2'']) \<noteq> []"
    by (simp add: run mm_present_of_def)
  have 4: "df_getitem ?F col_material = Inr [PStr (u ''X''), PStr (u ''X'')]"
    by (simp add: run)
  have 7: "pivot_empty ex_pivot_x \<or> pivot_empty \<lparr>pv_index = [], pv_columns = [], pv_values = []\<rparr>"
    by (simp add: pivot_empty_def)
  have "\<exists>fig. fst (update_plot ex_heap (u ''prot'') (Some [u ''X'', u ''Z'']) None None None
                  (u ''heatmap'') (Some [u ''MM1'', u ''MM2''])) = Inr fig
          \<and> coloraxis fig = Some (Fin 0, Fin 100)"
    by (rule empty_pivot_default_range [OF 1 2 3 4 ex_p1 ex_p2 7])
  moreover have "pivot_empty \<lparr>pv_index = [], pv_columns = [], pv_values = []\<rparr>"
    by (simp add: pivot_empty_def)
  ultimately show ?thesis by (intro conjI)
qed

lemma fl_le_refl: "\<not> isnan a \<Longrightarrow> fl_le a a"
  by (cases a) (simp_all add: isnan_def)

lemma fl_le_total: "\<not> isnan a \<Longrightarrow> \<not> isnan b \<Longrightarrow> fl_le a b \<or> fl_le b a"
  by (cases a; cases b) (auto simp: isnan_def)

lemma fl_le_trans: "fl_le a b \<Longrightarrow> fl_le b c \<Longrightarrow> fl_le a c"
  by (cases a; cases b; cases c) auto

lemma py_min_cases: "py_min a b = a \<or> py_min a b = b"
  by (simp add: py_min_def)

lemma py_max_cases: "py_max a b = a \<or> py_max a b = b"
  by (simp add: py_max_def)

lemma py_min_le:
  assumes "\<not> isnan a" and "\<not> isnan b"
  shows "fl_le (py_min a b) a \<and> fl_le (py_min a b) b"
  using assms fl_le_refl [of a] fl_le_refl [of b] fl_le_total [of a b]
  by (auto simp: py_min_def fl_lt_def)

lemma py_max_ge:
  assumes "\<not> isnan a" and "\<not> isnan b"
  shows "fl_le a (py_max a b) \<and> fl_le b (py_max a b)"
  using assms fl_le_refl [of a] fl_le_refl [of b] fl_le_total [of a b]
  by (auto simp: py_max_def fl_lt_def)

lemma foldl_py_min:
  assumes "\<not> isnan x" and "\<forall>v\<in>set xs. \<not> isnan v"
  shows "foldl py_min x xs \<in> set (x # xs) \<and> (\<forall>v\<in>set (x # xs). fl_le (foldl py_min x xs) v)"
  using assms
proof (induction xs arbitrary: x)
  case Nil
  then show ?case by (simp add: fl_le_refl)
next
  case (Cons y ys)
  let ?m = "py_min x y"
  from Cons.prems have nx: "\<not> isnan x" and ny: "\<not> isnan y" and nys: "\<forall>v\<in>set ys. \<not> isnan v"
    by simp_all
  have nm: "\<not> isnan ?m" using py_min_cases [of x y] nx ny by auto
  from Cons.IH [OF nm nys] have
    mem: "foldl py_min ?m ys \<in> set (?m # ys)" and
    le: "\<forall>v\<in>set (?m # ys). fl_le (foldl py_min ?m ys) v"
    by simp_all
  from le have lm: "fl_le (foldl py_min ?m ys) ?m" by simp
  from py_min_le [OF nx ny] lm have "fl_le (foldl py_min ?m ys) x" "fl_le (foldl py_min ?m ys) y"
    using fl_le_trans by blast+
  moreover from mem py_min_cases [of x y] have "foldl py_min ?m ys \<in> set (x # y # ys)" by auto
  ultimately show ?case using le by simp
qed

lemma foldl_py_max:
  assumes "\<not> isnan x" and "\<forall>v\<in>set xs. \<not> isnan v"
  shows "foldl py_max x xs \<in> set (x # xs) \<and> (\<forall>v\<in>set (x # xs). fl_le v (foldl py_max x xs))"
  using assms
proof (induction xs arbitrary: x)
  case Nil
  then show ?case by (simp add: fl_le_refl)
next
  case (Cons y ys)
  let ?m = "py_max x y"
  from Cons.prems have nx: "\<not> isnan x" and ny: "\<not> isnan y" and nys: "\<forall>v\<in>set ys. \<not> isnan v"
    by simp_all
  have nm: "\<not> isnan ?m" using py_max_cases [of x y] nx ny by auto
  from Cons.IH [OF nm nys] have
    mem: "foldl py_max ?m ys \<in> set (?m # ys)" and
    le: "\<forall>v\<in>set (?m # ys). fl_le v (foldl py_max ?m ys)"
    by simp_all
  from le have lm: "fl_le ?m (foldl py_max ?m ys)" by simp
  from py_max_ge [OF nx ny] lm have "fl_le x (foldl py_max ?m ys)" "fl_le y (foldl py_max ?m ys)"
    using fl_le_trans by blast+
  moreover from mem py_max_cases [of x y] have "foldl py_max ?m ys \<in> set (x # y # ys)" by auto
  ultimately show ?case using le by simp
qed

lemma skipna_min_least:
  assumes "\<exists>v\<in>set vs. \<not> isnan v"
  shows "\<not> isnan (skipna_min vs) \<and> skipna_min vs \<in> set vs
         \<and> (\<forall>v\<in>set vs. \<not> isnan v \<longrightarrow> fl_le (skipna_min vs) v)"
proof -
  let ?xs = "filter (\<lambda>v. \<not> isnan v) vs"
  from assms have "?xs \<noteq> []" by (simp add: filter_empty_conv)
  then obtain x xs where c: "?xs = x # xs" by (cases ?xs) auto
  then have "x \<in> set ?xs" "set xs \<subseteq> set ?xs" by auto
  then have nx: "\<not> isnan x" and nxs: "\<forall>v\<in>set xs. \<not> isnan v" by auto
  from foldl_py_min [OF nx nxs] have
    mem: "foldl py_min x xs \<in> set ?xs" and le: "\<forall>v\<in>set ?xs. fl_le (foldl py_min x xs) v"
    unfolding c by simp_all
  have s: "skipna_min vs = foldl py_min x xs" by (simp add: skipna_min_def c)
  from mem le show ?thesis unfolding s by auto
qed

lemma skipna_max_greatest:
  assumes "\<exists>v\<in>set vs. \<not> isnan v"
  shows "\<not> isnan (skipna_max vs) \<and> skipna_max vs \<in> set vs
         \<and> (\<forall>v\<in>set vs. \<not> isnan v \<longrightarrow> fl_le v (skipna_max vs))"
proof -
  let ?xs = "filter (\<lambda>v. \<not> isnan v) vs"
  from assms have "?xs \<noteq> []" by (simp add: filter_empty_conv)
  then obtain x xs where c: "?xs = x # xs" by (cases ?xs) auto
  then have "x \<in> set ?xs" "set xs \<subseteq> set ?xs" by auto
  then have nx: "\<not> isnan x" and nxs: "\<forall>v\<in>set xs. \<not> isnan v" by auto
  from foldl_py_max [OF nx nxs] have
    mem: "foldl py_max x xs \<in> set ?xs" and le: "\<forall>v\<in>set ?xs. fl_le v (foldl py_max x xs)"
    unfolding c by simp_all
  have s: "skipna_max vs = foldl py_max x xs" by (simp add: skipna_max_def c)
  from mem le show ?thesis unfolding s by auto
qed

lemma pivot_layout_wf: "pivot_wf (pivot_layout nrecs)"
proof -
  define cf where "cf = (\<lambda>m e. mean (group_values nrecs m e))"
  define kept where "kept = filter (\<lambda>(m, e). \<not> isnan (cf m e)) (remdups (map (\<lambda>(m, e, v). (m, e)) nrecs))"
  define idx where "idx = sort (remdups (map fst kept))"
  define cols where "cols = sort_key label_key (remdups (map snd kept))"
  let ?p = "pivot_layout nrecs"
  have p: "pv_index ?p = idx" "pv_columns ?p = cols"
    "pv_values ?p = map (\<lambda>m. map (\<lambda>e. cf m e) cols) idx"
    by (simp_all add: pivot_layout_def Let_def cf_def kept_def idx_def cols_def)
  have kept: "\<not> isnan (cf m e)" if "(m, e) \<in> set kept" for m e
    using that by (simp add: kept_def)
  have sidx: "set idx = fst ` set kept" and scols: "set cols = snd ` set kept"
    by (simp_all add: idx_def cols_def)
  have rows: "list_all (\<lambda>row. length row = length (pv_columns ?p)) (pv_values ?p)"
    unfolding p by (simp add: list_all_iff)
  have col: "list_ex (\<lambda>v. \<not> isnan v) (pv_column ?p j)" if j: "j < length cols" for j
  proof -
    have c: "pv_column ?p j = map (\<lambda>m. cf m (cols ! j)) idx"
      unfolding pv_column_def p using j by simp
    from j have "cols ! j \<in> set cols" by (rule nth_mem)
    then have "cols ! j \<in> snd ` set kept" by (simp only: scols)
    then obtain m where k: "(m, cols ! j) \<in> set kept" by force
    then have "\<not> isnan (cf m (cols ! j))" by (rule kept)
    moreover from k have "m \<in> set idx" unfolding sidx by force
    ultimately show ?thesis unfolding c by (auto simp: list_ex_iff)
  qed
  have "list_all (\<lambda>j. list_ex (\<lambda>v. \<not> isnan v) (pv_column ?p j)) [0..<length (pv_columns ?p)]"
    unfolding p(2) using col by (simp add: list_all_iff)
  with rows show ?thesis by (simp add: pivot_wf_def)
qed

lemma pv_min_least:
  assumes wf: "pivot_wf p" and ne: "pv_columns p \<noteq> []"
  shows "\<not> isnan (pv_min p) \<and> pv_min p \<in> pivot_cells p
         \<and> (\<forall>c\<in>pivot_cells p. \<not> isnan c \<longrightarrow> fl_le (pv_min p) c)"
proof -
  let ?n = "length (pv_columns p)"
  let ?ms = "map (\<lambda>j. skipna_min (pv_column p j)) [0..<?n]"
  from wf have rows: "\<And>row. row \<in> set (pv_values p) \<Longrightarrow> length row = ?n"
    and cols: "\<And>j. j < ?n \<Longrightarrow> \<exists>v\<in>set (pv_column p j). \<not> isnan v"
    by (auto simp: pivot_wf_def list_all_iff list_ex_iff)
  have colsub: "set (pv_column p j) \<subseteq> pivot_cells p" if "j < ?n" for j
    using that rows by (auto simp: pv_column_def pivot_cells_def)
  have m: "\<not> isnan (skipna_min (pv_column p j)) \<and> skipna_min (pv_column p j) \<in> pivot_cells p
           \<and> (\<forall>v\<in>set (pv_column p j). \<not> isnan v \<longrightarrow> fl_le (skipna_min (pv_column p j)) v)"
    if "j < ?n" for j
    using skipna_min_least [OF cols [OF that]] colsub [OF that] by blast
  from ne have "0 < ?n" by simp
  then have "\<exists>v\<in>set ?ms. \<not> isnan v" using m [of 0] by force
  from skipna_min_least [OF this] have
    a: "\<not> isnan (skipna_min ?ms)" and b: "skipna_min ?ms \<in> set ?ms"
    and c: "\<forall>v\<in>set ?ms. \<not> isnan v \<longrightarrow> fl_le (skipna_min ?ms) v"
    by blast+
  from b obtain j where j: "j < ?n" "skipna_min ?ms = skipna_min (pv_column p j)" by auto
  with m [of j] have mem: "skipna_min ?ms \<in> pivot_cells p" by simp
  have le: "fl_le (skipna_min ?ms) x" if x: "x \<in> pivot_cells p" "\<not> isnan x" for x
  proof -
    from x(1) obtain row where r: "row \<in> set (pv_values p)" "x \<in> set row"
      by (auto simp: pivot_cells_def)
    then obtain k where k: "k < length row" "x = row ! k" by (auto simp: in_set_conv_nth)
    with rows [OF r(1)] have kn: "k < ?n" by simp
    from r(1) k(2) have "x \<in> set (pv_column p k)" by (auto simp: pv_column_def)
    with m [OF kn] x(2) have 1: "fl_le (skipna_min (pv_column p k)) x" by blast
    from kn have "skipna_min (pv_column p k) \<in> set ?ms" by simp
    with c m [OF kn] have "fl_le (skipna_min ?ms) (skipna_min (pv_column p k))" by blast
    with 1 show ?thesis by (rule fl_le_trans [rotated])
  qed
  show ?thesis unfolding pv_min_def using a mem le by blast
qed

lemma pv_max_greatest:
  assumes wf: "pivot_wf p" and ne: "pv_columns p \<noteq> []"
  shows "\<not> isnan (pv_max p) \<and> pv_max p \<in> pivot_cells p
         \<and> (\<forall>c\<in>pivot_cells p. \<not> isnan c \<longrightarrow> fl_le c (pv_max p))"
proof -
  let ?n = "length (pv_columns p)"
  let ?ms = "map (\<lambda>j. skipna_max (pv_column p j)) [0..<?n]"
  from wf have rows: "\<And>row. row \<in> set (pv_values p) \<Longrightarrow> length row = ?n"
    and cols: "\<And>j. j < ?n \<Longrightarrow> \<exists>v\<in>set (pv_column p j). \<not> isnan v"
    by (auto simp: pivot_wf_def list_all_iff list_ex_iff)
  have colsub: "set (pv_column p j) \<subseteq> pivot_cells p" if "j < ?n" for j
    using that rows by (auto simp: pv_column_def pivot_cells_def)
  have m: "\<not> isnan (skipna_max (pv_column p j)) \<and> skipna_max (pv_column p j) \<in> pivot_cells p
           \<and> (\<forall>v\<in>set (pv_column p j). \<not> isnan v \<longrightarrow> fl_le v (skipna_max (pv_column p j)))"
    if "j < ?n" for j
    using skipna_max_greatest [OF cols [OF that]] colsub [OF that] by blast
  from ne have "0 < ?n" by simp
  then have "\<exists>v\<in>set ?ms. \<not> isnan v" using m [of 0] by force
  from skipna_max_greatest [OF this] have
    a: "\<not> isnan (skipna_max ?ms)" and b: "skipna_max ?ms \<in> set ?ms"
    and c: "\<forall>v\<in>set ?ms. \<not> isnan v \<longrightarrow> fl_le v (skipna_max ?ms)"
    by blast+
  from b obtain j where j: "j < ?n" "skipna_max ?ms = skipna_max (pv_column p j)" by auto
  with m [of j] have mem: "skipna_max ?ms \<in> pivot_cells p" by simp
  have le: "fl_le x (skipna_max ?ms)" if x: "x \<in> pivot_cells p" "\<not> isnan x" for x
  proof -
    from x(1) obtain row where r: "row \<in> set (pv_values p)" "x \<in> set row"
      by (auto simp: pivot_cells_def)
    then obtain k where k: "k < length row" "x = row ! k" by (auto simp: in_set_conv_nth)
    with rows [OF r(1)] have kn: "k < ?n" by simp
    from r(1) k(2) have "x \<in> set (pv_column p k)" by (auto simp: pv_column_def)
    with m [OF kn] x(2) have 1: "fl_le x (skipna_max (pv_column p k))" by blast
    from kn have "skipna_max (pv_column p k) \<in> set ?ms" by simp
    with c m [OF kn] have "fl_le (skipna_max (pv_column p k)) (skipna_max ?ms)" by blast
    with 1 show ?thesis by (rule fl_le_trans)
  qed
  show ?thesis unfolding pv_max_def using a mem le by blast
qed

end
